theory Spec2Isabelle
  imports Main "HOL-Library.Multiset"
begin

section \<open>Data model (validateBankAccount/main.go, TYPES)\<close>

text \<open>
  The structs of \<^verbatim>\<open>main.go\<close> as records. A Go pointer field (\<^verbatim>\<open>*string\<close>,
  \<^verbatim>\<open>*[]string\<close>) is an \<open>option\<close>: \<open>None\<close> is the nil pointer. A Go string is a
  sequence of bytes, here a \<open>string\<close> (a list of 8-bit characters). Slices are lists.
  Field names that occur in two structs are written qualified
  (\<open>Config.Providers\<close>, \<open>DataProviderResponse.IsValid\<close>).
\<close>

record Provider =
  Name :: string
  URL :: string

record Config =
  Providers :: "Provider list"

record BankAccountValidationRequest =
  AccountNumber :: "string option"
  Providers :: "string list option"

record BankAccountValidationResult =
  Provider :: string
  IsValid :: bool

record BankAccountValidationResponse =
  Result :: "BankAccountValidationResult list"

record DataProviderResponse =
  IsValid :: bool

text \<open>
  \<^verbatim>\<open>Request\<close> and \<^verbatim>\<open>Response\<close> are the API Gateway proxy events; the program reads
  only the request's body and writes only the four response fields below (a nil
  header map is the empty map).
\<close>

record Request =
  Body :: string

record Response =
  StatusCode :: int
  IsBase64Encoded :: bool
  Body :: string
  Headers :: "string \<rightharpoonup> string"

text \<open>
  A nil pointer dereference is the one run-time panic the program can raise; a function
  that can panic returns \<open>panic + 'a\<close>, with \<open>Inl\<close> for the panic.
\<close>

datatype panic = NilPointerDereference

section \<open>The registry filter\<close>

text \<open>
  \<^verbatim>\<open>providersToCall\<close>: a nil filter returns the configured providers. Otherwise the
  first loop fills \<^verbatim>\<open>confMap\<close> (a later provider overwrites an earlier one of the
  same name), and the second loop walks the filter, appending the map's entry for
  every name that has one.
\<close>

definition providersToCall :: "Provider list \<Rightarrow> string list option \<Rightarrow> Provider list" where
  "providersToCall providers filter' =
     (case filter' of
        None \<Rightarrow> providers
      | Some names \<Rightarrow>
          (let confMap = foldl (\<lambda>m v. m(Name v \<mapsto> v)) Map.empty providers
           in foldl (\<lambda>filteredProviders providerName.
                       case confMap providerName of
                         Some providerConfig \<Rightarrow> filteredProviders @ [providerConfig]
                       | None \<Rightarrow> filteredProviders)
                    [] names))"

section \<open>The library calls the program makes\<close>

text \<open>
  The program calls \<^verbatim>\<open>encoding/json\<close> (Unmarshal, Marshal, HTMLEscape) on request
  and response bodies. The library is not part of the repository; it is modelled here
  after its documented behaviour so that the program's functions can be evaluated on
  concrete bodies. The HTTP client, the environment and the YAML parser are inputs of
  the model (see below).
\<close>

subsection \<open>Bytes and UTF-8\<close>

definition byte :: "char \<Rightarrow> nat" where
  "byte c = of_char c"

definition is_cont :: "char \<Rightarrow> bool" where
  "is_cont c = (0x80 \<le> byte c \<and> byte c \<le> 0xBF)"

text \<open>
  \<^verbatim>\<open>utf8.DecodeRune\<close>, as far as the callers need it: the number of bytes of the
  well-formed encoding at the head of the input, and 0 where Go reports
  \<^verbatim>\<open>(RuneError, 1)\<close>. The second byte's range excludes overlong forms, surrogates
  and code points above U+10FFFF.
\<close>

definition second_lo :: "nat \<Rightarrow> nat" where
  "second_lo b = (if b = 0xE0 then 0xA0 else if b = 0xF0 then 0x90 else 0x80)"

definition second_hi :: "nat \<Rightarrow> nat" where
  "second_hi b = (if b = 0xED then 0x9F else if b = 0xF4 then 0x8F else 0xBF)"

definition utf8_width :: "string \<Rightarrow> nat" where
  "utf8_width s =
     (case s of
        [] \<Rightarrow> 0
      | c # cs \<Rightarrow>
          (let b = byte c in
           if b < 0x80 then 1
           else if 0xC2 \<le> b \<and> b \<le> 0xDF then
             (case cs of
                c1 # _ \<Rightarrow> if is_cont c1 then 2 else 0
              | _ \<Rightarrow> 0)
           else if 0xE0 \<le> b \<and> b \<le> 0xEF then
             (case cs of
                c1 # c2 # _ \<Rightarrow>
                  if second_lo b \<le> byte c1 \<and> byte c1 \<le> second_hi b \<and> is_cont c2
                  then 3 else 0
              | _ \<Rightarrow> 0)
           else if 0xF0 \<le> b \<and> b \<le> 0xF4 then
             (case cs of
                c1 # c2 # c3 # _ \<Rightarrow>
                  if second_lo b \<le> byte c1 \<and> byte c1 \<le> second_hi b \<and> is_cont c2 \<and> is_cont c3
                  then 4 else 0
              | _ \<Rightarrow> 0)
           else 0))"

text \<open>U+FFFD, the replacement character, in UTF-8.\<close>

definition replacement :: string where
  "replacement = [CHR 0xEF, CHR 0xBF, CHR 0xBD]"

text \<open>\<^verbatim>\<open>utf8.EncodeRune\<close>: surrogates and values above U+10FFFF encode as U+FFFD.\<close>

definition EncodeRune :: "nat \<Rightarrow> string" where
  "EncodeRune r =
     (if r < 0x80 then [char_of r]
      else if r < 0x800 then [char_of (0xC0 + r div 64), char_of (0x80 + r mod 64)]
      else if (0xD800 \<le> r \<and> r < 0xE000) \<or> 0x10FFFF < r then replacement
      else if r < 0x10000 then
        [char_of (0xE0 + r div 4096), char_of (0x80 + r div 64 mod 64),
         char_of (0x80 + r mod 64)]
      else
        [char_of (0xF0 + r div 262144), char_of (0x80 + r div 4096 mod 64),
         char_of (0x80 + r div 64 mod 64), char_of (0x80 + r mod 64)])"

subsection \<open>JSON text to JSON value\<close>

datatype json =
  JNull
  | JBool bool
  | JNumber string
  | JString string
  | JArray "json list"
  | JObject "(string \<times> json) list"

definition hex_val :: "char \<Rightarrow> nat option" where
  "hex_val c =
     (let b = byte c in
      if 0x30 \<le> b \<and> b \<le> 0x39 then Some (b - 0x30)
      else if 0x61 \<le> b \<and> b \<le> 0x66 then Some (b - 0x61 + 10)
      else if 0x41 \<le> b \<and> b \<le> 0x46 then Some (b - 0x41 + 10)
      else None)"

text \<open>\<^verbatim>\<open>getu4\<close>: the code unit of a \<^verbatim>\<open>\uXXXX\<close> escape at the head of the input.\<close>

definition getu4 :: "string \<Rightarrow> nat option" where
  "getu4 s =
     (case s of
        bs # u # a # b # c # d # _ \<Rightarrow>
          if bs = CHR 0x5C \<and> u = CHR ''u'' then
            (case (hex_val a, hex_val b, hex_val c, hex_val d) of
               (Some x3, Some x2, Some x1, Some x0) \<Rightarrow>
                 Some (x3 * 4096 + x2 * 256 + x1 * 16 + x0)
             | _ \<Rightarrow> None)
          else None
      | _ \<Rightarrow> None)"

definition unescape :: "char \<Rightarrow> char option" where
  "unescape e =
     (if e = CHR 0x22 \<or> e = CHR 0x5C \<or> e = CHR ''/'' then Some e
      else if e = CHR ''b'' then Some (CHR 0x08)
      else if e = CHR ''f'' then Some (CHR 0x0C)
      else if e = CHR ''n'' then Some (CHR 0x0A)
      else if e = CHR ''r'' then Some (CHR 0x0D)
      else if e = CHR ''t'' then Some (CHR 0x09)
      else None)"

text \<open>
  \<^verbatim>\<open>unquote\<close>: the bytes between the quotes of a JSON string literal to the string
  they denote. Escapes are decoded, a surrogate pair of two \<^verbatim>\<open>\u\<close> escapes is
  combined, a lone surrogate and every byte that is not well-formed UTF-8 become
  U+FFFD. \<open>None\<close> is a literal the scanner refuses: an unknown escape, a control
  character or a bare quote.
\<close>

fun unquote :: "string \<Rightarrow> string option" where
  "unquote [] = Some []"
| "unquote (c # cs) =
     (if c = CHR 0x5C then
        (case cs of
           [] \<Rightarrow> None
         | e # rest \<Rightarrow>
             if e = CHR ''u'' then
               (case getu4 (c # cs) of
                  None \<Rightarrow> None
                | Some rr \<Rightarrow>
                    (let r = drop 4 rest in
                     if 0xD800 \<le> rr \<and> rr < 0xE000 then
                       (case getu4 r of
                          None \<Rightarrow> map_option ((@) replacement) (unquote r)
                        | Some rr1 \<Rightarrow>
                            if rr < 0xDC00 \<and> 0xDC00 \<le> rr1 \<and> rr1 < 0xE000 then
                              map_option
                                ((@) (EncodeRune ((rr - 0xD800) * 1024 + (rr1 - 0xDC00) + 0x10000)))
                                (unquote (drop 6 r))
                            else map_option ((@) replacement) (unquote r))
                     else map_option ((@) (EncodeRune rr)) (unquote r)))
             else
               (case unescape e of
                  None \<Rightarrow> None
                | Some x \<Rightarrow> map_option ((#) x) (unquote rest)))
      else if c = CHR 0x22 \<or> byte c < 0x20 then None
      else if byte c < 0x80 then map_option ((#) c) (unquote cs)
      else
        (let w = utf8_width (c # cs) in
         if w = 0 then map_option ((@) replacement) (unquote cs)
         else map_option ((@) (take w (c # cs))) (unquote (drop (w - 1) cs))))"

text \<open>
  The number grammar of the scanner: an optional minus, \<^verbatim>\<open>0\<close> or a digit sequence
  without leading zero, an optional fraction, an optional exponent.
\<close>

definition is_digit :: "char \<Rightarrow> bool" where
  "is_digit c = (0x30 \<le> byte c \<and> byte c \<le> 0x39)"

definition valid_exp :: "string \<Rightarrow> bool" where
  "valid_exp r =
     (case r of
        [] \<Rightarrow> True
      | c # cs \<Rightarrow>
          (c = CHR ''e'' \<or> c = CHR ''E'') \<and>
          (let ds = (case cs of
                       [] \<Rightarrow> []
                     | s # t \<Rightarrow> if s = CHR ''+'' \<or> s = CHR ''-'' then t else cs)
           in ds \<noteq> [] \<and> list_all is_digit ds))"

definition valid_frac :: "string \<Rightarrow> bool" where
  "valid_frac r =
     (case r of
        [] \<Rightarrow> True
      | c # cs \<Rightarrow>
          if c = CHR ''.'' then
            takeWhile is_digit cs \<noteq> [] \<and> valid_exp (dropWhile is_digit cs)
          else valid_exp r)"

definition valid_number :: "string \<Rightarrow> bool" where
  "valid_number w =
     (let u = (case w of
                 [] \<Rightarrow> []
               | c # cs \<Rightarrow> if c = CHR ''-'' then cs else w)
      in case takeWhile is_digit u of
           [] \<Rightarrow> False
         | d # ds \<Rightarrow>
             (if d = CHR ''0'' then ds = [] else True) \<and> valid_frac (dropWhile is_digit u))"

datatype token =
  TBeginObject
  | TEndObject
  | TBeginArray
  | TEndArray
  | TColon
  | TComma
  | TString string
  | TLiteral json

text \<open>
  The lexer reads one byte at a time. A run of letters, digits, signs and dots is
  collected and then classified as \<^verbatim>\<open>true\<close>, \<^verbatim>\<open>false\<close>, \<^verbatim>\<open>null\<close> or a number;
  a string is collected up to its closing quote and then unquoted.
\<close>

datatype lexmode =
  Idle
  | InWord string
  | InString string
  | InEscape string

definition is_space :: "char \<Rightarrow> bool" where
  "is_space c = (c = CHR '' '' \<or> c = CHR 0x09 \<or> c = CHR 0x0D \<or> c = CHR 0x0A)"

definition is_word_char :: "char \<Rightarrow> bool" where
  "is_word_char c =
     (let b = byte c in
      (0x30 \<le> b \<and> b \<le> 0x39) \<or> (0x41 \<le> b \<and> b \<le> 0x5A) \<or> (0x61 \<le> b \<and> b \<le> 0x7A) \<or>
      c = CHR ''+'' \<or> c = CHR ''-'' \<or> c = CHR ''.'')"

definition word_token :: "string \<Rightarrow> token option" where
  "word_token w =
     (if w = ''true'' then Some (TLiteral (JBool True))
      else if w = ''false'' then Some (TLiteral (JBool False))
      else if w = ''null'' then Some (TLiteral JNull)
      else if valid_number w then Some (TLiteral (JNumber w))
      else None)"

definition idle_step :: "char \<Rightarrow> (lexmode \<times> token list) option" where
  "idle_step c =
     (if is_space c then Some (Idle, [])
      else if c = CHR ''{'' then Some (Idle, [TBeginObject])
      else if c = CHR ''}'' then Some (Idle, [TEndObject])
      else if c = CHR ''['' then Some (Idle, [TBeginArray])
      else if c = CHR '']'' then Some (Idle, [TEndArray])
      else if c = CHR '':'' then Some (Idle, [TColon])
      else if c = CHR '','' then Some (Idle, [TComma])
      else if c = CHR 0x22 then Some (InString [], [])
      else if is_word_char c then Some (InWord [c], [])
      else None)"

definition lex_step :: "lexmode \<Rightarrow> char \<Rightarrow> (lexmode \<times> token list) option" where
  "lex_step m c =
     (case m of
        Idle \<Rightarrow> idle_step c
      | InWord w \<Rightarrow>
          if is_word_char c then Some (InWord (w @ [c]), [])
          else
            (case word_token w of
               None \<Rightarrow> None
             | Some t \<Rightarrow>
                 (case idle_step c of
                    None \<Rightarrow> None
                  | Some (m', ts) \<Rightarrow> Some (m', t # ts)))
      | InString s \<Rightarrow>
          if c = CHR 0x22 then
            (case unquote s of
               None \<Rightarrow> None
             | Some v \<Rightarrow> Some (Idle, [TString v]))
          else if c = CHR 0x5C then Some (InEscape (s @ [c]), [])
          else Some (InString (s @ [c]), [])
      | InEscape s \<Rightarrow> Some (InString (s @ [c]), []))"

fun lex :: "lexmode \<Rightarrow> string \<Rightarrow> token list option" where
  "lex m [] =
     (case m of
        Idle \<Rightarrow> Some []
      | InWord w \<Rightarrow> map_option (\<lambda>t. [t]) (word_token w)
      | _ \<Rightarrow> None)"
| "lex m (c # cs) =
     (case lex_step m c of
        None \<Rightarrow> None
      | Some (m', ts) \<Rightarrow> map_option ((@) ts) (lex m' cs))"

text \<open>
  The parser is the scanner's push-down automaton over the tokens: the stack holds
  the containers that are open, innermost first. Nesting deeper than 10000 is
  refused, as the scanner refuses it.
\<close>

datatype frame =
  InArray "json list"
  | InObject "(string \<times> json) list" "string option"

datatype pstate =
  BeginValue
  | BeginValueOrEmpty
  | BeginStringOrEmpty
  | BeginString
  | ObjectKey
  | EndValue json

definition push_frame :: "pstate \<Rightarrow> frame \<Rightarrow> frame list \<Rightarrow> (pstate \<times> frame list) option" where
  "push_frame st f stack = (if length stack < 10000 then Some (st, f # stack) else None)"

definition begin_value :: "token \<Rightarrow> frame list \<Rightarrow> (pstate \<times> frame list) option" where
  "begin_value t stack =
     (case t of
        TLiteral j \<Rightarrow> Some (EndValue j, stack)
      | TString s \<Rightarrow> Some (EndValue (JString s), stack)
      | TBeginObject \<Rightarrow> push_frame BeginStringOrEmpty (InObject [] None) stack
      | TBeginArray \<Rightarrow> push_frame BeginValueOrEmpty (InArray []) stack
      | _ \<Rightarrow> None)"

definition begin_string :: "token \<Rightarrow> frame list \<Rightarrow> (pstate \<times> frame list) option" where
  "begin_string t stack =
     (case (t, stack) of
        (TString k, InObject ms _ # rest) \<Rightarrow> Some (ObjectKey, InObject ms (Some k) # rest)
      | _ \<Rightarrow> None)"

definition end_value :: "json \<Rightarrow> token \<Rightarrow> frame list \<Rightarrow> (pstate \<times> frame list) option" where
  "end_value v t stack =
     (case (stack, t) of
        (InArray es # rest, TComma) \<Rightarrow> Some (BeginValue, InArray (es @ [v]) # rest)
      | (InArray es # rest, TEndArray) \<Rightarrow> Some (EndValue (JArray (es @ [v])), rest)
      | (InObject ms (Some k) # rest, TComma) \<Rightarrow>
          Some (BeginString, InObject (ms @ [(k, v)]) None # rest)
      | (InObject ms (Some k) # rest, TEndObject) \<Rightarrow>
          Some (EndValue (JObject (ms @ [(k, v)])), rest)
      | _ \<Rightarrow> None)"

definition parse_step :: "pstate \<Rightarrow> frame list \<Rightarrow> token \<Rightarrow> (pstate \<times> frame list) option" where
  "parse_step st stack t =
     (case st of
        BeginValue \<Rightarrow> begin_value t stack
      | BeginValueOrEmpty \<Rightarrow>
          (case (t, stack) of
             (TEndArray, InArray es # rest) \<Rightarrow> Some (EndValue (JArray es), rest)
           | _ \<Rightarrow> begin_value t stack)
      | BeginStringOrEmpty \<Rightarrow>
          (case (t, stack) of
             (TEndObject, InObject ms _ # rest) \<Rightarrow> Some (EndValue (JObject ms), rest)
           | _ \<Rightarrow> begin_string t stack)
      | BeginString \<Rightarrow> begin_string t stack
      | ObjectKey \<Rightarrow>
          (case t of
             TColon \<Rightarrow> Some (BeginValue, stack)
           | _ \<Rightarrow> None)
      | EndValue v \<Rightarrow> end_value v t stack)"

fun parse :: "pstate \<Rightarrow> frame list \<Rightarrow> token list \<Rightarrow> json option" where
  "parse st stack [] =
     (case (st, stack) of
        (EndValue v, []) \<Rightarrow> Some v
      | _ \<Rightarrow> None)"
| "parse st stack (t # ts) =
     (case parse_step st stack t of
        None \<Rightarrow> None
      | Some (st', stack') \<Rightarrow> parse st' stack' ts)"

text \<open>The whole text is one JSON value, with white space around it.\<close>

definition json_parse :: "string \<Rightarrow> json option" where
  "json_parse data =
     (case lex Idle data of
        None \<Rightarrow> None
      | Some ts \<Rightarrow> parse BeginValue [] ts)"

subsection \<open>json.Unmarshal into the program's structs\<close>

text \<open>
  \<^verbatim>\<open>json.Unmarshal\<close> first checks the syntax of the whole text, then stores the
  value. A value of the wrong JSON type for its target is an
  \<^verbatim>\<open>UnmarshalTypeError\<close>; the library goes on decoding and reports the first
  such error at the end. The program looks only at whether there was an error, so the
  model stops at the first.
\<close>

datatype json_error = SyntaxError | UnmarshalTypeError

text \<open>
  Object keys match struct fields case-insensitively. Beside the ASCII letters, the
  letters \<^verbatim>\<open>s\<close> and \<^verbatim>\<open>k\<close> have one more spelling each under Unicode case
  folding: U+017F and U+212A.
\<close>

definition to_lower :: "char \<Rightarrow> char" where
  "to_lower c = (if 0x41 \<le> byte c \<and> byte c \<le> 0x5A then char_of (byte c + 0x20) else c)"

fun foldName :: "string \<Rightarrow> string" where
  "foldName [] = []"
| "foldName (c # cs) =
     (if c = CHR 0xC5 \<and> take 1 cs = [CHR 0xBF] then CHR ''s'' # foldName (drop 1 cs)
      else if c = CHR 0xE2 \<and> take 2 cs = [CHR 0x84, CHR 0xAA] then CHR ''k'' # foldName (drop 2 cs)
      else to_lower c # foldName cs)"

fun fold_result :: "('a \<Rightarrow> 's \<Rightarrow> 'e + 's) \<Rightarrow> 'a list \<Rightarrow> 's \<Rightarrow> 'e + 's" where
  "fold_result f [] s = Inr s"
| "fold_result f (x # xs) s =
     (case f x s of
        Inl e \<Rightarrow> Inl e
      | Inr s' \<Rightarrow> fold_result f xs s')"

text \<open>
  A JSON value into a \<^verbatim>\<open>string\<close> element of a slice: \<^verbatim>\<open>null\<close> leaves the element
  as it is. The elements of an array are stored into the slots of the slice that the
  field already points to, when there is one (a key that occurs twice); a slot the
  slice never had holds the empty string.
\<close>

fun store_strings :: "json list \<Rightarrow> string list \<Rightarrow> json_error + string list" where
  "store_strings [] slots = Inr []"
| "store_strings (e # es) slots =
     (case (case e of
              JNull \<Rightarrow> Inr (case slots of [] \<Rightarrow> [] | old # _ \<Rightarrow> old)
            | JString x \<Rightarrow> Inr x
            | _ \<Rightarrow> Inl UnmarshalTypeError) of
        Inl err \<Rightarrow> Inl err
      | Inr x \<Rightarrow>
          (case store_strings es (drop 1 slots) of
             Inl err \<Rightarrow> Inl err
           | Inr xs \<Rightarrow> Inr (x # xs)))"

text \<open>
  One member of the request object. The state is the struct being filled and the
  backing array of its \<^verbatim>\<open>Providers\<close> slice. \<^verbatim>\<open>null\<close> sets a pointer field to nil;
  a key that matches no field is skipped.
\<close>

definition store_request_member ::
  "string \<times> json \<Rightarrow> BankAccountValidationRequest \<times> string list \<Rightarrow>
   json_error + (BankAccountValidationRequest \<times> string list)" where
  "store_request_member m st =
     (case (m, st) of
        ((key, v), (req, slots)) \<Rightarrow>
          if foldName key = foldName ''accountNumber'' then
            (case v of
               JNull \<Rightarrow> Inr (req\<lparr>AccountNumber := None\<rparr>, slots)
             | JString x \<Rightarrow> Inr (req\<lparr>AccountNumber := Some x\<rparr>, slots)
             | _ \<Rightarrow> Inl UnmarshalTypeError)
          else if foldName key = foldName ''providers'' then
            (case v of
               JNull \<Rightarrow> Inr (req\<lparr>Providers := None\<rparr>, [])
             | JArray es \<Rightarrow>
                 if es = [] then Inr (req\<lparr>Providers := Some []\<rparr>, [])
                 else
                   (case store_strings es slots of
                      Inl err \<Rightarrow> Inl err
                    | Inr xs \<Rightarrow> Inr (req\<lparr>Providers := Some xs\<rparr>, xs @ drop (length xs) slots))
             | _ \<Rightarrow> Inl UnmarshalTypeError)
          else Inr (req, slots))"

text \<open>
  \<^verbatim>\<open>json.Unmarshal(data, &validationRequest)\<close> with a nil
  \<^verbatim>\<open>*BankAccountValidationRequest\<close>: the text \<^verbatim>\<open>null\<close> leaves the pointer nil
  and is no error; an object allocates the struct; any other value is a type error.
\<close>

definition json_Unmarshal_BankAccountValidationRequest ::
  "string \<Rightarrow> json_error + BankAccountValidationRequest option" where
  "json_Unmarshal_BankAccountValidationRequest data =
     (case json_parse data of
        None \<Rightarrow> Inl SyntaxError
      | Some JNull \<Rightarrow> Inr None
      | Some (JObject ms) \<Rightarrow>
          (case fold_result store_request_member ms
                  (\<lparr>AccountNumber = None, Providers = None\<rparr>, []) of
             Inl err \<Rightarrow> Inl err
           | Inr (req, _) \<Rightarrow> Inr (Some req))
      | Some _ \<Rightarrow> Inl UnmarshalTypeError)"

definition store_response_member ::
  "string \<times> json \<Rightarrow> DataProviderResponse \<Rightarrow> json_error + DataProviderResponse" where
  "store_response_member m r =
     (case m of
        (key, v) \<Rightarrow>
          if foldName key = foldName ''isValid'' then
            (case v of
               JNull \<Rightarrow> Inr r
             | JBool b \<Rightarrow> Inr (r\<lparr>DataProviderResponse.IsValid := b\<rparr>)
             | _ \<Rightarrow> Inl UnmarshalTypeError)
          else Inr r)"

text \<open>
  \<^verbatim>\<open>json.Unmarshal(bodyBytes, &providerResponse)\<close> with a nil
  \<^verbatim>\<open>*DataProviderResponse\<close>.
\<close>

definition json_Unmarshal_DataProviderResponse ::
  "string \<Rightarrow> json_error + DataProviderResponse option" where
  "json_Unmarshal_DataProviderResponse data =
     (case json_parse data of
        None \<Rightarrow> Inl SyntaxError
      | Some JNull \<Rightarrow> Inr None
      | Some (JObject ms) \<Rightarrow>
          (case fold_result store_response_member ms \<lparr>DataProviderResponse.IsValid = False\<rparr> of
             Inl err \<Rightarrow> Inl err
           | Inr r \<Rightarrow> Inr (Some r))
      | Some _ \<Rightarrow> Inl UnmarshalTypeError)"

subsection \<open>json.Marshal and json.HTMLEscape\<close>

definition hex_digit :: "nat \<Rightarrow> char" where
  "hex_digit n = ''0123456789abcdef'' ! (n mod 16)"

definition u00 :: "nat \<Rightarrow> string" where
  "u00 b = [CHR 0x5C, CHR ''u'', CHR ''0'', CHR ''0'', hex_digit (b div 16), hex_digit b]"

text \<open>U+2028 and U+2029 are the bytes E2 80 A8 and E2 80 A9.\<close>

text \<open>
  The encoder's string loop with HTML escaping on, as \<^verbatim>\<open>json.Marshal\<close> has it:
  quote and backslash are escaped, newline, carriage return and tab have their short
  forms, the other control characters and \<^verbatim>\<open><\<close>, \<^verbatim>\<open>>\<close>, \<^verbatim>\<open>&\<close> are written
  as \<^verbatim>\<open>\u00XX\<close>, a byte that is not well-formed UTF-8 as the escape of U+FFFD, and
  U+2028 and U+2029 as their escapes. (From Go 1.22 on backspace and form
  feed have short forms too; the model follows the releases before.)
\<close>

fun escape_string :: "string \<Rightarrow> string" where
  "escape_string [] = []"
| "escape_string (c # cs) =
     (if byte c < 0x80 then
        (if c = CHR 0x5C \<or> c = CHR 0x22 then CHR 0x5C # c # escape_string cs
         else if c = CHR 0x0A then CHR 0x5C # CHR ''n'' # escape_string cs
         else if c = CHR 0x0D then CHR 0x5C # CHR ''r'' # escape_string cs
         else if c = CHR 0x09 then CHR 0x5C # CHR ''t'' # escape_string cs
         else if byte c < 0x20 \<or> c = CHR ''<'' \<or> c = CHR ''>'' \<or> c = CHR ''&''
         then u00 (byte c) @ escape_string cs
         else c # escape_string cs)
      else
        (let w = utf8_width (c # cs) in
         if w = 0 then (CHR 0x5C # ''ufffd'') @ escape_string cs
         else if c = CHR 0xE2 \<and> take 2 cs = [CHR 0x80, CHR 0xA8]
         then (CHR 0x5C # ''u2028'') @ escape_string (drop 2 cs)
         else if c = CHR 0xE2 \<and> take 2 cs = [CHR 0x80, CHR 0xA9]
         then (CHR 0x5C # ''u2029'') @ escape_string (drop 2 cs)
         else take w (c # cs) @ escape_string (drop (w - 1) cs)))"

definition encode_string :: "string \<Rightarrow> string" where
  "encode_string s = CHR 0x22 # escape_string s @ [CHR 0x22]"

text \<open>
  \<^verbatim>\<open>json.Marshal\<close> returns an error for a value it cannot encode (a channel, a
  function, a cyclic structure, a NaN). The three values the program marshals are
  maps and structs of strings and booleans, for which it has no error; the result
  type keeps the error the program tests for.
\<close>

datatype marshal_error = UnsupportedValue

text \<open>\<^verbatim>\<open>json.Marshal(map[string]string{"accountNumber": accountNumber})\<close>\<close>

definition json_Marshal_values :: "string \<Rightarrow> marshal_error + string" where
  "json_Marshal_values accountNumber =
     Inr (''{\"accountNumber\":'' @ encode_string accountNumber @ ''}'')"

text \<open>\<^verbatim>\<open>json.Marshal(map[string]interface{}{"error": message})\<close>\<close>

definition json_Marshal_error :: "string \<Rightarrow> marshal_error + string" where
  "json_Marshal_error message = Inr (''{\"error\":'' @ encode_string message @ ''}'')"

definition marshal_result :: "BankAccountValidationResult \<Rightarrow> string" where
  "marshal_result r =
     ''{\"provider\":'' @ encode_string (Provider r) @ '',\"isValid\":'' @
     (if BankAccountValidationResult.IsValid r then ''true'' else ''false'') @ ''}''"

fun join_comma :: "string list \<Rightarrow> string" where
  "join_comma [] = []"
| "join_comma [x] = x"
| "join_comma (x # y # ys) = x @ '','' @ join_comma (y # ys)"

text \<open>
  \<^verbatim>\<open>json.Marshal(response)\<close> for a \<^verbatim>\<open>BankAccountValidationResponse\<close> whose slice is
  not nil (\<^verbatim>\<open>checkProviders\<close> starts it as an empty slice).
\<close>

definition json_Marshal_response :: "BankAccountValidationResponse \<Rightarrow> marshal_error + string" where
  "json_Marshal_response response =
     Inr (''{\"result\":['' @ join_comma (map marshal_result (Result response)) @ '']}'')"

text \<open>
  \<^verbatim>\<open>json.HTMLEscape\<close>: \<^verbatim>\<open><\<close>, \<^verbatim>\<open>>\<close>, \<^verbatim>\<open>&\<close>, U+2028 and U+2029 are replaced by
  their \<^verbatim>\<open>\u\<close> escapes, every other byte is copied.
\<close>

fun HTMLEscape :: "string \<Rightarrow> string" where
  "HTMLEscape [] = []"
| "HTMLEscape (c # cs) =
     (if c = CHR ''<'' \<or> c = CHR ''>'' \<or> c = CHR ''&'' then u00 (byte c) @ HTMLEscape cs
      else if c = CHR 0xE2 \<and> take 2 cs = [CHR 0x80, CHR 0xA8]
      then (CHR 0x5C # ''u2028'') @ HTMLEscape (drop 2 cs)
      else if c = CHR 0xE2 \<and> take 2 cs = [CHR 0x80, CHR 0xA9]
      then (CHR 0x5C # ''u2029'') @ HTMLEscape (drop 2 cs)
      else c # HTMLEscape cs)"

subsection \<open>The HTTP client, the environment and the YAML parser\<close>

text \<open>
  What \<^verbatim>\<open>client.Post(url, contentType, body)\<close> returns is an input of the model: a
  transport error (a refused connection, the one-second timeout) or a response with
  its status code and what \<^verbatim>\<open>io.ReadAll\<close> reads from its body, which can fail too.
  The Go client reports no error for a status that is not 2xx.
\<close>

datatype http_error = ConnectionError | TimeoutError

record http_Response =
  http_StatusCode :: int
  http_ReadAll :: "http_error + string"

type_synonym http_client = "string \<Rightarrow> string \<Rightarrow> string \<Rightarrow> http_error + http_Response"

text \<open>The network of one invocation: \<open>net i\<close> answers the call of the \<open>i\<close>-th goroutine.\<close>

type_synonym network = "nat \<Rightarrow> http_client"

datatype yaml_error = YamlError

section \<open>The program\<close>

text \<open>
  \<^verbatim>\<open>handleError\<close>: the error is only logged, so the model takes the message alone.
  A failed \<^verbatim>\<open>json.Marshal\<close> is logged and leaves the body nil.
\<close>

definition handleError :: "string \<Rightarrow> Response" where
  "handleError message =
     (let body = (case json_Marshal_error message of
                    Inl err \<Rightarrow> []
                  | Inr b \<Rightarrow> b)
      in \<lparr>StatusCode = 500,
          IsBase64Encoded = False,
          Body = HTMLEscape body,
          Headers = [''Content-Type'' \<mapsto> ''application/json'']\<rparr>)"

text \<open>
  \<^verbatim>\<open>unmarshalRequest\<close> returns a request or an error response. After a successful
  \<^verbatim>\<open>json.Unmarshal\<close> it reads \<^verbatim>\<open>validationRequest.AccountNumber\<close> without testing
  \<^verbatim>\<open>validationRequest\<close> for nil: on a nil pointer that read panics.
\<close>

definition unmarshalRequest :: "Request \<Rightarrow> panic + (Response + BankAccountValidationRequest)" where
  "unmarshalRequest request =
     (case json_Unmarshal_BankAccountValidationRequest (Request.Body request) of
        Inl err \<Rightarrow> Inr (Inl (handleError ''invalid json payload''))
      | Inr None \<Rightarrow> Inl NilPointerDereference
      | Inr (Some validationRequest) \<Rightarrow>
          (case AccountNumber validationRequest of
             None \<Rightarrow> Inr (Inl (handleError ''account number missing from payload''))
           | Some _ \<Rightarrow> Inr (Inr validationRequest)))"

text \<open>
  \<^verbatim>\<open>checkProvider\<close>: what the goroutine sends on the channel, or the panic it raises.
  Every failure is logged and answered with \<^verbatim>\<open>defaultResponse\<close>. The status code of
  the response is never read. After a successful \<^verbatim>\<open>json.Unmarshal\<close> the function
  reads \<^verbatim>\<open>providerResponse.IsValid\<close> without testing \<^verbatim>\<open>providerResponse\<close> for nil.
\<close>

definition checkProvider ::
  "http_client \<Rightarrow> string \<Rightarrow> Provider \<Rightarrow> panic + BankAccountValidationResult" where
  "checkProvider client accountNumber provider =
     (let defaultResponse =
            \<lparr>Provider = Name provider, BankAccountValidationResult.IsValid = False\<rparr>
      in case json_Marshal_values accountNumber of
           Inl err \<Rightarrow> Inr defaultResponse
         | Inr json_data \<Rightarrow>
             (case client (URL provider) ''application/json'' json_data of
                Inl err \<Rightarrow> Inr defaultResponse
              | Inr response \<Rightarrow>
                  (case http_ReadAll response of
                     Inl err \<Rightarrow> Inr defaultResponse
                   | Inr bodyBytes \<Rightarrow>
                       (case json_Unmarshal_DataProviderResponse bodyBytes of
                          Inl err \<Rightarrow> Inr defaultResponse
                        | Inr None \<Rightarrow> Inl NilPointerDereference
                        | Inr (Some providerResponse) \<Rightarrow>
                            Inr \<lparr>Provider = Name provider,
                                 BankAccountValidationResult.IsValid =
                                   DataProviderResponse.IsValid providerResponse\<rparr>))))"

text \<open>
  \<^verbatim>\<open>checkProviders\<close> starts one goroutine per provider; each sends one result on the
  unbuffered channel and then signals the wait group; the channel is closed when all
  have signalled, which ends the receiving loop. The order in which the sends are
  received is the scheduler's choice: \<open>collect\<close> takes it as a list of picks, each
  pick choosing among the goroutines that have not sent yet (the first of them when
  the list is used up). A goroutine that panics ends the program: no response is
  returned.
\<close>

function collect ::
  "nat list \<Rightarrow> (panic + BankAccountValidationResult) list \<Rightarrow> BankAccountValidationResult list \<Rightarrow>
   panic + BankAccountValidationResult list" where
  "collect sched pending results =
     (if pending = [] then Inr results
      else
        (let k = (case sched of [] \<Rightarrow> 0 | pick # _ \<Rightarrow> pick mod length pending)
         in case pending ! k of
              Inl p \<Rightarrow> Inl p
            | Inr result \<Rightarrow>
                collect (drop 1 sched) (take k pending @ drop (Suc k) pending)
                  (results @ [result])))"
  by pat_completeness auto
termination
proof (relation "measure (\<lambda>(sched, pending, results). length pending)")
  show "wf (measure (\<lambda>(sched, pending, results). length pending))"
    by simp
next
  fix sched :: "nat list"
    and pending :: "(panic + BankAccountValidationResult) list"
    and results :: "BankAccountValidationResult list"
    and k :: nat and result :: BankAccountValidationResult
  assume ne: "pending \<noteq> []"
    and k: "k = (case sched of [] \<Rightarrow> 0 | pick # _ \<Rightarrow> pick mod length pending)"
  from ne have "k < length pending"
    unfolding k by (cases sched) simp_all
  then show "((drop 1 sched, take k pending @ drop (Suc k) pending, results @ [result]),
              (sched, pending, results))
             \<in> measure (\<lambda>(sched, pending, results). length pending)"
    by simp
qed

declare collect.simps [simp del]

definition checkProviders ::
  "network \<Rightarrow> nat list \<Rightarrow> string \<Rightarrow> Provider list \<Rightarrow> panic + BankAccountValidationResponse" where
  "checkProviders net sched accountNumber providers =
     (let goroutines =
            map (\<lambda>(i, provider). checkProvider (net i) accountNumber provider)
              (enumerate 0 providers)
      in case collect sched goroutines [] of
           Inl p \<Rightarrow> Inl p
         | Inr results \<Rightarrow> Inr \<lparr>Result = results\<rparr>)"

text \<open>
  \<^verbatim>\<open>Handler\<close> returns a response and an error, or panics. The account number is
  read through its pointer.
\<close>

definition Handler ::
  "Config \<Rightarrow> network \<Rightarrow> nat list \<Rightarrow> Request \<Rightarrow> panic + (Response \<times> marshal_error option)" where
  "Handler config net sched request =
     (case unmarshalRequest request of
        Inl p \<Rightarrow> Inl p
      | Inr (Inl errorResponse) \<Rightarrow> Inr (errorResponse, None)
      | Inr (Inr validationRequest) \<Rightarrow>
          (case AccountNumber validationRequest of
             None \<Rightarrow> Inl NilPointerDereference
           | Some accountNumber \<Rightarrow>
               (case checkProviders net sched accountNumber
                       (providersToCall (Config.Providers config) (Providers validationRequest)) of
                  Inl p \<Rightarrow> Inl p
                | Inr response \<Rightarrow>
                    (case json_Marshal_response response of
                       Inl err \<Rightarrow>
                         Inr (\<lparr>StatusCode = 404, IsBase64Encoded = False, Body = [],
                               Headers = Map.empty\<rparr>, Some err)
                     | Inr body \<Rightarrow>
                         Inr (\<lparr>StatusCode = 200,
                               IsBase64Encoded = False,
                               Body = HTMLEscape body,
                               Headers = [''Content-Type'' \<mapsto> ''application/json'']\<rparr>, None)))))"

text \<open>
  \<^verbatim>\<open>readConfig\<close>: the environment and \<^verbatim>\<open>yaml.Unmarshal\<close> are inputs. The parser
  returns an error, or the configuration, which is nil for a document without
  content.
\<close>

definition readConfig ::
  "(string \<rightharpoonup> string) \<Rightarrow> (string \<Rightarrow> yaml_error + Config option) \<Rightarrow> Response + Config" where
  "readConfig env yaml_Unmarshal =
     (case env ''PROVIDERS'' of
        None \<Rightarrow> Inl (handleError ''ENVVAR PROVIDERS is required'')
      | Some providerYaml \<Rightarrow>
          (case yaml_Unmarshal providerYaml of
             Inl err \<Rightarrow> Inl (handleError ''ENVVAR PROVIDERS is invalid yaml'')
           | Inr None \<Rightarrow> Inl (handleError ''ENVVAR PROVIDERS is invalid yaml'')
           | Inr (Some config) \<Rightarrow> Inr config))"

section \<open>Concrete inputs\<close>

text \<open>
  The two providers of \<^verbatim>\<open>serverless.yml\<close>, and HTTP clients with a fixed
  behaviour: one whose connection is refused, one that answers every call with a
  given status and body, and one whose body cannot be read.
\<close>

definition provider1 :: Provider where
  "provider1 = \<lparr>Name = ''provider1'', URL = ''https://provider1.com/v1/api/account/validate''\<rparr>"

definition provider2 :: Provider where
  "provider2 = \<lparr>Name = ''provider2'', URL = ''https://provider2.com/v2/api/account/validate''\<rparr>"

definition refused :: http_client where
  "refused = (\<lambda>url contentType body. Inl ConnectionError)"

definition answers :: "int \<Rightarrow> string \<Rightarrow> http_client" where
  "answers status text =
     (\<lambda>url contentType body. Inr \<lparr>http_StatusCode = status, http_ReadAll = Inr text\<rparr>)"

definition broken_body :: http_client where
  "broken_body =
     (\<lambda>url contentType body. Inr \<lparr>http_StatusCode = 200, http_ReadAll = Inl TimeoutError\<rparr>)"

text \<open>A network on which every connection is refused, and a YAML parser that fails.\<close>

definition unreachable :: network where
  "unreachable = (\<lambda>i. refused)"

definition yaml_fails :: "string \<Rightarrow> yaml_error + Config option" where
  "yaml_fails = (\<lambda>providerYaml. Inl YamlError)"

text \<open>
  A network that answers \<^verbatim>\<open>{"isValid": true}\<close> to the request that carries the
  empty account number to the URL of the provider of that goroutine (provider1 for
  the first, provider2 for the others), and refuses every other request.
\<close>

definition only_empty_account :: network where
  "only_empty_account =
     (\<lambda>i url contentType body.
        if url = (if i = 0 then URL provider1 else URL provider2)
           \<and> contentType = ''application/json''
           \<and> body = ''{\"accountNumber\":\"\"}''
        then Inr \<lparr>http_StatusCode = 200, http_ReadAll = Inr ''{\"isValid\": true}''\<rparr>
        else Inl ConnectionError)"

section \<open>The registry filter: properties\<close>

text \<open>
  The map that the first loop of \<^verbatim>\<open>providersToCall\<close> builds is the lookup in the
  reversed list of the providers, so the last provider of a name is the one found.
\<close>

lemma confMap_map_of:
  "foldl (\<lambda>m v. m(Name v \<mapsto> v)) m0 ps = m0 ++ map_of (rev (map (\<lambda>v. (Name v, v)) ps))"
proof (induction ps arbitrary: m0)
  case Nil
  show ?case by simp
next
  case (Cons q qs)
  have "foldl (\<lambda>m v. m(Name v \<mapsto> v)) m0 (q # qs) =
        foldl (\<lambda>m v. m(Name v \<mapsto> v)) (m0(Name q \<mapsto> q)) qs"
    by (simp only: foldl_Cons)
  also have "\<dots> = m0(Name q \<mapsto> q) ++ map_of (rev (map (\<lambda>v. (Name v, v)) qs))"
    by (rule Cons.IH)
  also have "\<dots> = (m0 ++ [Name q \<mapsto> q]) ++ map_of (rev (map (\<lambda>v. (Name v, v)) qs))"
    by (simp only: map_add_upd map_add_empty)
  also have "\<dots> = m0 ++ ([Name q \<mapsto> q] ++ map_of (rev (map (\<lambda>v. (Name v, v)) qs)))"
    by (rule map_add_assoc [symmetric])
  also have "\<dots> = m0 ++ map_of (rev (map (\<lambda>v. (Name v, v)) (q # qs)))"
    by (simp only: list.map rev.simps map_of_append map_of.simps fst_conv snd_conv)
  finally show ?case .
qed

lemma confMap_Some:
  assumes "foldl (\<lambda>m v. m(Name v \<mapsto> v)) Map.empty ps n = Some p"
  shows "p \<in> set ps \<and> Name p = n"
proof -
  from assms have "map_of (rev (map (\<lambda>v. (Name v, v)) ps)) n = Some p"
    by (simp only: confMap_map_of empty_map_add)
  then have "(n, p) \<in> set (rev (map (\<lambda>v. (Name v, v)) ps))"
    by (rule map_of_SomeD)
  then show ?thesis by auto
qed

lemma confMap_None:
  "(foldl (\<lambda>m v. m(Name v \<mapsto> v)) Map.empty ps n = None) = (n \<notin> Name ` set ps)"
proof -
  have "(map_of (rev (map (\<lambda>v. (Name v, v)) ps)) n = None) = (n \<notin> Name ` set ps)"
    by (simp add: map_of_eq_None_iff image_image)
  then show ?thesis
    by (simp only: confMap_map_of empty_map_add)
qed

lemma confMap_distinct:
  assumes "distinct (map Name ps)" and "p \<in> set ps"
  shows "foldl (\<lambda>m v. m(Name v \<mapsto> v)) Map.empty ps (Name p) = Some p"
proof -
  have "map fst (rev (map (\<lambda>v. (Name v, v)) ps)) = rev (map Name ps)"
    by (simp add: rev_map comp_def)
  with assms(1) have "distinct (map fst (rev (map (\<lambda>v. (Name v, v)) ps)))"
    by simp
  moreover from assms(2) have "(Name p, p) \<in> set (rev (map (\<lambda>v. (Name v, v)) ps))"
    by auto
  ultimately have "map_of (rev (map (\<lambda>v. (Name v, v)) ps)) (Name p) = Some p"
    by (rule map_of_is_SomeI)
  then show ?thesis
    by (simp only: confMap_map_of empty_map_add)
qed

lemma filter_loop:
  "foldl (\<lambda>filteredProviders providerName.
            case cm providerName of
              Some providerConfig \<Rightarrow> filteredProviders @ [providerConfig]
            | None \<Rightarrow> filteredProviders) acc names
   = acc @ List.map_filter cm names"
  by (induction names arbitrary: acc) (simp_all add: List.map_filter_simps split: option.splits)

lemma providersToCall_map_filter:
  "providersToCall providers (Some names) =
     List.map_filter (foldl (\<lambda>m v. m(Name v \<mapsto> v)) Map.empty providers) names"
  unfolding providersToCall_def option.case Let_def by (rule filter_loop [of _ "[]", simplified])

lemma map_filter_names:
  assumes "\<And>n p. cm n = Some p \<Longrightarrow> Name p = n"
  shows "map Name (List.map_filter cm names) = filter (\<lambda>n. cm n \<noteq> None) names"
  using assms by (induction names) (auto simp: List.map_filter_simps split: option.splits)

lemma set_map_filter: "set (List.map_filter cm names) = {p. \<exists>n \<in> set names. cm n = Some p}"
  by (induction names) (auto simp: List.map_filter_simps split: option.splits)

lemma count_map_filter:
  assumes names: "\<And>n q. cm n = Some q \<Longrightarrow> Name q = n" and p: "cm (Name p) = Some p"
  shows "count_list (List.map_filter cm ns) p = count_list ns (Name p)"
proof (induction ns)
  case Nil
  show ?case by (simp add: List.map_filter_simps)
next
  case (Cons n ns)
  show ?case
  proof (cases "cm n")
    case None
    with p have "n \<noteq> Name p" by auto
    with None Cons.IH show ?thesis
      by (simp add: List.map_filter_simps)
  next
    case (Some q)
    have "(q = p) = (n = Name p)"
    proof
      assume "q = p"
      with names [OF Some] show "n = Name p" by simp
    next
      assume "n = Name p"
      with Some p show "q = p" by simp
    qed
    with Some Cons.IH show ?thesis
      by (simp add: List.map_filter_simps)
  qed
qed

lemma map_filter_identity:
  assumes "\<And>p. p \<in> set ps \<Longrightarrow> cm (Name p) = Some p"
  shows "List.map_filter cm (map Name ps) = ps"
  using assms by (induction ps) (simp_all add: List.map_filter_simps)

text \<open>
  C3, as the code has it. The names of the result are the filter's names that some
  configured provider bears, in the filter's order and as often as the filter has
  them; names that match no configured provider are dropped. Every provider of the
  result is a configured one, and when the configured names are pairwise distinct
  the result holds exactly the configured providers whose name is in the filter.
\<close>

theorem providersToCall_follows_filter:
  "map Name (providersToCall providers (Some names)) =
     filter (\<lambda>n. n \<in> Name ` set providers) names
   \<and> set (providersToCall providers (Some names)) \<subseteq> set providers
   \<and> (distinct (map Name providers) \<longrightarrow>
        set (providersToCall providers (Some names)) =
          {p \<in> set providers. Name p \<in> set names})"
proof -
  let ?cm = "foldl (\<lambda>m v. m(Name v \<mapsto> v)) Map.empty providers"
  have some: "\<And>n p. ?cm n = Some p \<Longrightarrow> p \<in> set providers \<and> Name p = n"
    by (rule confMap_Some)
  have none: "\<And>n. (?cm n \<noteq> None) = (n \<in> Name ` set providers)"
    by (simp only: confMap_None not_not)
  have "map Name (providersToCall providers (Some names)) = filter (\<lambda>n. ?cm n \<noteq> None) names"
    unfolding providersToCall_map_filter
    by (rule map_filter_names) (rule some [THEN conjunct2])
  then have a: "map Name (providersToCall providers (Some names)) =
      filter (\<lambda>n. n \<in> Name ` set providers) names"
    by (simp only: none)
  have b: "set (providersToCall providers (Some names)) \<subseteq> set providers"
  proof
    fix p
    assume "p \<in> set (providersToCall providers (Some names))"
    then obtain n where "?cm n = Some p"
      unfolding providersToCall_map_filter set_map_filter by blast
    then show "p \<in> set providers"
      by (rule some [THEN conjunct1])
  qed
  have c: "set (providersToCall providers (Some names)) =
      {p \<in> set providers. Name p \<in> set names}"
    if d: "distinct (map Name providers)"
  proof (rule set_eqI)
    fix p
    show "(p \<in> set (providersToCall providers (Some names))) =
        (p \<in> {p \<in> set providers. Name p \<in> set names})"
    proof
      assume "p \<in> set (providersToCall providers (Some names))"
      then obtain n where n: "n \<in> set names" and "?cm n = Some p"
        unfolding providersToCall_map_filter set_map_filter by blast
      from some [OF this(2)] n show "p \<in> {p \<in> set providers. Name p \<in> set names}"
        by blast
    next
      assume "p \<in> {p \<in> set providers. Name p \<in> set names}"
      then have p: "p \<in> set providers" and n: "Name p \<in> set names"
        by simp_all
      from confMap_distinct [OF d p] n
      show "p \<in> set (providersToCall providers (Some names))"
        unfolding providersToCall_map_filter set_map_filter by blast
    qed
  qed
  from a b c show ?thesis by blast
qed

text \<open>
  The filter \<^verbatim>\<open>["provider2", "provider3", "provider1", "provider2"]\<close> against the two
  configured providers: the unknown name is dropped, the result follows the filter.
\<close>

theorem providersToCall_follows_filter_witness:
  "distinct (map Name [provider1, provider2])
   \<and> map Name (providersToCall [provider1, provider2]
                (Some [''provider2'', ''provider3'', ''provider1'', ''provider2''])) =
       [''provider2'', ''provider1'', ''provider2'']
   \<and> set (providersToCall [provider1, provider2]
           (Some [''provider2'', ''provider3'', ''provider1'', ''provider2''])) =
       {provider1, provider2}"
proof -
  have d: "distinct (map Name [provider1, provider2])"
    by (simp add: provider1_def provider2_def)
  have n: "filter (\<lambda>n. n \<in> Name ` set [provider1, provider2])
             [''provider2'', ''provider3'', ''provider1'', ''provider2''] =
           [''provider2'', ''provider1'', ''provider2'']"
    by (simp add: provider1_def provider2_def)
  have s: "{p \<in> set [provider1, provider2].
             Name p \<in> set [''provider2'', ''provider3'', ''provider1'', ''provider2'']} =
           {provider1, provider2}"
    by (auto simp: provider1_def provider2_def)
  from providersToCall_follows_filter
         [of "[provider1, provider2]"
             "[''provider2'', ''provider3'', ''provider1'', ''provider2'']"] d
  show ?thesis
    unfolding n s by blast
qed

text \<open>
  C3 as stated fails: with the filter \<^verbatim>\<open>["provider2", "provider1"]\<close> the result is
  in the filter's order, which is not the configured order.
\<close>

theorem providersToCall_order_counterexample:
  "providersToCall [provider1, provider2] (Some [''provider2'', ''provider1'']) =
     [provider2, provider1]
   \<and> providersToCall [provider1, provider2] (Some [''provider2'', ''provider1'']) \<noteq>
     filter (\<lambda>p. Name p \<in> set [''provider2'', ''provider1'']) [provider1, provider2]"
  by (simp add: providersToCall_def provider1_def provider2_def)

text \<open>
  C4, as the code has it: when the configured names are pairwise distinct, a
  configured provider occurs in the result as often as its name occurs in the filter.
\<close>

theorem providersToCall_repeats:
  assumes "distinct (map Name providers)" and "p \<in> set providers"
  shows "count_list (providersToCall providers (Some names)) p = count_list names (Name p)"
proof -
  let ?cm = "foldl (\<lambda>m v. m(Name v \<mapsto> v)) Map.empty providers"
  have some: "\<And>n q. ?cm n = Some q \<Longrightarrow> Name q = n"
    by (rule confMap_Some [THEN conjunct2])
  have "?cm (Name p) = Some p"
    using assms by (rule confMap_distinct)
  with some show ?thesis
    unfolding providersToCall_map_filter by (rule count_map_filter)
qed

theorem providersToCall_repeats_witness:
  "distinct (map Name [provider1, provider2])
   \<and> provider1 \<in> set [provider1, provider2]
   \<and> count_list (providersToCall [provider1, provider2]
                  (Some [''provider1'', ''provider2'', ''provider1''])) provider1 = 2"
proof -
  have d: "distinct (map Name [provider1, provider2])"
    by (simp add: provider1_def provider2_def)
  have m: "provider1 \<in> set [provider1, provider2]"
    by simp
  have "count_list [''provider1'', ''provider2'', ''provider1''] (Name provider1) = 2"
    by (simp add: provider1_def)
  with providersToCall_repeats [OF d m, of "[''provider1'', ''provider2'', ''provider1'']"] d m
  show ?thesis
    by simp
qed

text \<open>
  C4 as stated fails: the filter \<^verbatim>\<open>["provider1", "provider1"]\<close> yields provider1
  twice.
\<close>

theorem providersToCall_duplicates_counterexample:
  "providersToCall [provider1, provider2] (Some [''provider1'', ''provider1'']) =
     [provider1, provider1]
   \<and> \<not> count_list
         (providersToCall [provider1, provider2] (Some [''provider1'', ''provider1'']))
         provider1 \<le> 1"
  by (simp add: providersToCall_def provider1_def provider2_def)

text \<open>
  C5: a provider list with pairwise distinct names, filtered by its own names in
  their order, is returned as it is.
\<close>

theorem providersToCall_own_names:
  assumes "distinct (map Name providers)"
  shows "providersToCall providers (Some (map Name providers)) = providers"
  unfolding providersToCall_map_filter
  by (rule map_filter_identity) (rule confMap_distinct [OF assms])

theorem providersToCall_own_names_witness:
  "distinct (map Name [provider1, provider2])
   \<and> providersToCall [provider1, provider2] (Some [''provider1'', ''provider2'']) =
       [provider1, provider2]"
proof -
  have d: "distinct (map Name [provider1, provider2])"
    by (simp add: provider1_def provider2_def)
  have "map Name [provider1, provider2] = [''provider1'', ''provider2'']"
    by (simp add: provider1_def provider2_def)
  with providersToCall_own_names [OF d] d show ?thesis
    by simp
qed

text \<open>
  C6: an empty filter yields the empty list, an absent filter yields the configured
  providers in their order; both are ordinary results (the function has no error
  result), and they differ whenever a provider is configured.
\<close>

theorem providersToCall_empty_and_absent:
  "providersToCall providers (Some []) = []
   \<and> providersToCall providers None = providers
   \<and> (providers \<noteq> [] \<longrightarrow>
        providersToCall providers (Some []) \<noteq> providersToCall providers None)"
  by (simp add: providersToCall_def)

theorem providersToCall_empty_and_absent_witness:
  "[provider1, provider2] \<noteq> []
   \<and> providersToCall [provider1, provider2] (Some []) = []
   \<and> providersToCall [provider1, provider2] None = [provider1, provider2]
   \<and> providersToCall [provider1, provider2] (Some []) \<noteq>
       providersToCall [provider1, provider2] None"
  using providersToCall_empty_and_absent [of "[provider1, provider2]"]
  by simp

section \<open>Evaluating the library model on concrete bodies\<close>

text \<open>
  The request and response bodies used below and in \<^verbatim>\<open>main_test.go\<close>, decoded and
  encoded by unfolding the definitions.
\<close>

lemmas json_eval =
  json_parse_def lex_step_def idle_step_def is_space_def is_word_char_def byte_def
  word_token_def valid_number_def valid_frac_def valid_exp_def is_digit_def
  parse_step_def begin_value_def begin_string_def end_value_def push_frame_def
  to_lower_def store_request_member_def store_response_member_def
  json_Unmarshal_BankAccountValidationRequest_def json_Unmarshal_DataProviderResponse_def

lemma parse_null: "json_parse ''null'' = Some JNull"
  by (simp add: json_eval)

lemma unmarshal_null_response: "json_Unmarshal_DataProviderResponse ''null'' = Inr None"
  by (simp add: json_Unmarshal_DataProviderResponse_def parse_null)

lemma unmarshal_null_request: "json_Unmarshal_BankAccountValidationRequest ''null'' = Inr None"
  by (simp add: json_Unmarshal_BankAccountValidationRequest_def parse_null)

lemma unmarshal_empty_account:
  "json_Unmarshal_BankAccountValidationRequest ''{\"accountNumber\": \"\"}'' =
     Inr (Some \<lparr>AccountNumber = Some [], Providers = None\<rparr>)"
  by (simp add: json_eval)

lemma unmarshal_valid_true:
  "json_Unmarshal_DataProviderResponse ''{\"isValid\": true}'' =
     Inr (Some \<lparr>DataProviderResponse.IsValid = True\<rparr>)"
  by (simp add: json_eval)

lemma unmarshal_not_json:
  "json_Unmarshal_DataProviderResponse ''<html>'' = Inl SyntaxError"
  by (simp add: json_eval)

lemma marshal_empty_account: "json_Marshal_values [] = Inr ''{\"accountNumber\":\"\"}''"
  by (simp add: json_Marshal_values_def encode_string_def)

lemma marshal_account: "json_Marshal_values ''12345678'' = Inr ''{\"accountNumber\":\"12345678\"}''"
  by (simp add: json_Marshal_values_def encode_string_def byte_def)

lemma error_bodies:
  "HTMLEscape (''{\"error\":'' @ encode_string ''invalid json payload'' @ ''}'') =
     ''{\"error\":\"invalid json payload\"}''"
  "HTMLEscape (''{\"error\":'' @ encode_string ''account number missing from payload'' @ ''}'') =
     ''{\"error\":\"account number missing from payload\"}''"
  "HTMLEscape (''{\"error\":'' @ encode_string ''ENVVAR PROVIDERS is required'' @ ''}'') =
     ''{\"error\":\"ENVVAR PROVIDERS is required\"}''"
  "HTMLEscape (''{\"error\":'' @ encode_string ''ENVVAR PROVIDERS is invalid yaml'' @ ''}'') =
     ''{\"error\":\"ENVVAR PROVIDERS is invalid yaml\"}''"
  by (simp_all add: encode_string_def byte_def)

lemma handleError_shape:
  "handleError message =
     \<lparr>StatusCode = 500, IsBase64Encoded = False,
      Body = HTMLEscape (''{\"error\":'' @ encode_string message @ ''}''),
      Headers = [''Content-Type'' \<mapsto> ''application/json'']\<rparr>"
  by (simp add: handleError_def json_Marshal_error_def)

section \<open>The provider client: properties\<close>

text \<open>Every result that \<^verbatim>\<open>checkProvider\<close> sends carries the provider's name.\<close>

lemma checkProvider_name:
  "checkProvider client accountNumber provider = Inr r \<Longrightarrow> Provider r = Name provider"
  by (auto simp: checkProvider_def Let_def split: sum.splits option.splits)

lemma checkProvider_refused:
  "checkProvider refused accountNumber provider =
     Inr \<lparr>Provider = Name provider, BankAccountValidationResult.IsValid = False\<rparr>"
  by (simp add: checkProvider_def refused_def json_Marshal_values_def)

text \<open>
  C2, as the code has it. With \<open>json_data\<close> the marshalled request: a transport
  error (a refused connection, the timeout), a body that cannot be read and a body
  that \<^verbatim>\<open>json.Unmarshal\<close> rejects each yield the provider's name with
  \<^verbatim>\<open>isValid = false\<close>; a body that decodes to a provider response yields the
  provider's name with the decoded \<^verbatim>\<open>isValid\<close>, whatever the status code of the
  response, which the function never reads. (A body that decodes to the nil pointer
  is the subject of C8.)
\<close>

theorem checkProvider_outcome:
  assumes "json_Marshal_values accountNumber = Inr json_data"
  shows "(client (URL provider) ''application/json'' json_data = Inl err \<longrightarrow>
            checkProvider client accountNumber provider =
              Inr \<lparr>Provider = Name provider, BankAccountValidationResult.IsValid = False\<rparr>)
       \<and> (client (URL provider) ''application/json'' json_data = Inr response
            \<and> http_ReadAll response = Inl err \<longrightarrow>
            checkProvider client accountNumber provider =
              Inr \<lparr>Provider = Name provider, BankAccountValidationResult.IsValid = False\<rparr>)
       \<and> (client (URL provider) ''application/json'' json_data = Inr response
            \<and> http_ReadAll response = Inr bodyBytes
            \<and> json_Unmarshal_DataProviderResponse bodyBytes = Inl json_err \<longrightarrow>
            checkProvider client accountNumber provider =
              Inr \<lparr>Provider = Name provider, BankAccountValidationResult.IsValid = False\<rparr>)
       \<and> (client (URL provider) ''application/json'' json_data = Inr response
            \<and> http_ReadAll response = Inr bodyBytes
            \<and> json_Unmarshal_DataProviderResponse bodyBytes = Inr (Some providerResponse) \<longrightarrow>
            checkProvider client accountNumber provider =
              Inr \<lparr>Provider = Name provider,
                   BankAccountValidationResult.IsValid =
                     DataProviderResponse.IsValid providerResponse\<rparr>)"
  using assms by (simp add: checkProvider_def)

text \<open>
  The four cases at provider1: a refused connection, an unreadable body, a body that
  is not JSON, and the body \<^verbatim>\<open>{"isValid": true}\<close>.
\<close>

theorem checkProvider_outcome_witness:
  "json_Marshal_values ''12345678'' = Inr ''{\"accountNumber\":\"12345678\"}''
   \<and> checkProvider refused ''12345678'' provider1 = Inr \<lparr>Provider = ''provider1'', IsValid = False\<rparr>
   \<and> checkProvider broken_body ''12345678'' provider1 = Inr \<lparr>Provider = ''provider1'', IsValid = False\<rparr>
   \<and> checkProvider (answers 200 ''<html>'') ''12345678'' provider1 = Inr \<lparr>Provider = ''provider1'', IsValid = False\<rparr>
   \<and> checkProvider (answers 200 ''{\"isValid\": true}'') ''12345678'' provider1 = Inr \<lparr>Provider = ''provider1'', IsValid = True\<rparr>"
  using checkProvider_outcome [OF marshal_account,
      where client = refused and provider = provider1 and err = ConnectionError]
    checkProvider_outcome [OF marshal_account,
      where client = broken_body and provider = provider1 and err = TimeoutError
        and response = "\<lparr>http_StatusCode = 200, http_ReadAll = Inl TimeoutError\<rparr>"]
    checkProvider_outcome [OF marshal_account,
      where client = "answers 200 ''<html>''" and provider = provider1
        and response = "\<lparr>http_StatusCode = 200, http_ReadAll = Inr ''<html>''\<rparr>"
        and bodyBytes = "''<html>''" and json_err = SyntaxError]
    checkProvider_outcome [OF marshal_account,
      where client = "answers 200 ''{\"isValid\": true}''" and provider = provider1
        and response = "\<lparr>http_StatusCode = 200, http_ReadAll = Inr ''{\"isValid\": true}''\<rparr>"
        and bodyBytes = "''{\"isValid\": true}''"
        and providerResponse = "\<lparr>DataProviderResponse.IsValid = True\<rparr>"]
  by (simp add: marshal_account refused_def broken_body_def answers_def provider1_def
        unmarshal_not_json unmarshal_valid_true)

text \<open>
  C2 as stated fails for a status that is not a success: a response with status 500
  and the body \<^verbatim>\<open>{"isValid": true}\<close> yields \<^verbatim>\<open>isValid = true\<close>, not the default
  outcome.
\<close>

theorem checkProvider_status_counterexample:
  "checkProvider (answers 500 ''{\"isValid\": true}'') ''12345678'' provider1 =
     Inr \<lparr>Provider = ''provider1'', IsValid = True\<rparr>
   \<and> checkProvider (answers 500 ''{\"isValid\": true}'') ''12345678'' provider1 \<noteq>
     Inr \<lparr>Provider = Name provider1, IsValid = False\<rparr>"
  by (simp add: checkProvider_def answers_def provider1_def json_Marshal_values_def unmarshal_valid_true)

text \<open>
  C8: the body \<^verbatim>\<open>null\<close> is syntactically valid JSON, \<^verbatim>\<open>json.Unmarshal\<close> accepts it
  and leaves \<^verbatim>\<open>providerResponse\<close> nil, and for a provider that answers with this
  body (here with status 200) \<^verbatim>\<open>checkProvider\<close> ends in the nil pointer dereference
  instead of an outcome, for every account number and provider.
\<close>

theorem checkProvider_null_body_panics:
  "json_parse ''null'' = Some JNull
   \<and> json_Unmarshal_DataProviderResponse ''null'' = Inr None
   \<and> checkProvider (answers 200 ''null'') accountNumber provider = Inl NilPointerDereference"
  by (simp add: checkProvider_def answers_def json_Marshal_values_def unmarshal_null_response
        parse_null)

section \<open>The aggregator: properties\<close>

text \<open>
  Removing the element at a position from a list removes one occurrence of it from
  the multiset of the list.
\<close>

lemma mset_remove_nth:
  assumes "k < length xs"
  shows "mset (take k xs @ drop (Suc k) xs) + {#xs ! k#} = mset xs"
proof -
  from assms have "xs = take k xs @ xs ! k # drop (Suc k) xs"
    by (rule id_take_nth_drop)
  then have "mset xs = mset (take k xs @ xs ! k # drop (Suc k) xs)"
    by simp
  then show ?thesis
    by simp
qed

text \<open>
  When every goroutine has a result to send, the receiving loop ends under every
  schedule, and what it has collected are the results already held and those of the
  goroutines, in some order.
\<close>

lemma collect_permutes:
  "\<exists>rs. collect sched (map Inr outs) results = Inr rs \<and> mset rs = mset results + mset outs"
proof (induction "length outs" arbitrary: sched outs results)
  case 0
  then show ?case by (simp add: collect.simps)
next
  case (Suc n)
  let ?pending = "map Inr outs :: (panic + BankAccountValidationResult) list"
  define k where "k = (case sched of [] \<Rightarrow> 0 | pick # _ \<Rightarrow> pick mod length ?pending)"
  from Suc.hyps(2) have len: "length outs = Suc n"
    by simp
  then have ne: "?pending \<noteq> []"
    by auto
  from len have k: "k < length outs"
    unfolding k_def by (cases sched) simp_all
  let ?rest = "take k outs @ drop (Suc k) outs"
  have rest: "take k ?pending @ drop (Suc k) ?pending = map Inr ?rest"
    by (simp add: take_map drop_map)
  from k len have "n = length ?rest"
    by simp
  from Suc.hyps(1) [OF this, of "drop 1 sched" "results @ [outs ! k]"]
  obtain rs where rs: "collect (drop 1 sched) (map Inr ?rest) (results @ [outs ! k]) = Inr rs"
    and m: "mset rs = mset (results @ [outs ! k]) + mset ?rest"
    by blast
  from k have nth: "?pending ! k = Inr (outs ! k)"
    by simp
  have "collect sched ?pending results =
      collect (drop 1 sched) (take k ?pending @ drop (Suc k) ?pending) (results @ [outs ! k])"
    using ne nth by (subst collect.simps) (simp add: k_def [symmetric] Let_def)
  with rs rest have "collect sched ?pending results = Inr rs"
    by simp
  moreover from m mset_remove_nth [OF k] have "mset rs = mset results + mset outs"
    by (simp add: ac_simps)
  ultimately show ?case by blast
qed

text \<open>
  When some goroutine panics, no schedule leads to a response: every goroutine is
  picked before the loop can end.
\<close>

lemma collect_panics:
  assumes "Inl p \<in> set pending"
  shows "\<exists>q. collect sched pending results = Inl q"
  using assms
proof (induction "length pending" arbitrary: sched pending results)
  case 0
  then show ?case by simp
next
  case (Suc n)
  define k where "k = (case sched of [] \<Rightarrow> 0 | pick # _ \<Rightarrow> pick mod length pending)"
  from Suc.hyps(2) have len': "length pending = Suc n"
    by simp
  then have ne: "pending \<noteq> []"
    by auto
  from len' have k: "k < length pending"
    unfolding k_def by (cases sched) simp_all
  show ?case
  proof (cases "pending ! k")
    case (Inl q)
    with ne have "collect sched pending results = Inl q"
      by (subst collect.simps) (simp add: k_def [symmetric] Let_def)
    then show ?thesis by blast
  next
    case (Inr r)
    let ?rest = "take k pending @ drop (Suc k) pending"
    from k len' have len: "n = length ?rest"
      by simp
    have a: "set pending = set (take k pending) \<union> set (drop k pending)"
      using set_append [of "take k pending" "drop k pending"]
      by (simp only: append_take_drop_id)
    from k have d: "drop k pending = pending ! k # drop (Suc k) pending"
      by (simp add: Cons_nth_drop_Suc)
    have b: "set (drop k pending) = insert (pending ! k) (set (drop (Suc k) pending))"
      by (subst d) simp
    from Suc.prems have "Inl p \<in> set (take k pending) \<union> set (drop k pending)"
      by (simp only: a [symmetric])
    with Inr have "Inl p \<in> set (take k pending) \<union> set (drop (Suc k) pending)"
      by (simp only: b) auto
    then have "Inl p \<in> set ?rest"
      by simp
    from Suc.hyps(1) [OF len this, of "drop 1 sched" "results @ [r]"]
    obtain q where "collect (drop 1 sched) ?rest (results @ [r]) = Inl q"
      by blast
    moreover have "collect sched pending results = collect (drop 1 sched) ?rest (results @ [r])"
      using ne Inr by (subst collect.simps) (simp add: k_def [symmetric] Let_def)
    ultimately show ?thesis by simp
  qed
qed

text \<open>The nil pointer dereference is the only panic, so a call that does not panic sends.\<close>

lemma not_panic_is_result:
  "(x :: panic + 'a) \<noteq> Inl NilPointerDereference \<Longrightarrow> \<exists>r. x = Inr r"
proof (cases x)
  case (Inl p)
  assume "x \<noteq> Inl NilPointerDereference"
  with Inl show ?thesis by (cases p) simp
next
  case (Inr r)
  then show ?thesis by blast
qed

text \<open>
  C1, as the code has it. When no provider call panics, \<^verbatim>\<open>checkProviders\<close> returns
  a response under every schedule; its results are the outcomes of the provider calls
  in some order, so there are exactly as many as providers, none is dropped however
  many calls fail or time out, and the provider names of the results are the names
  of the providers, with their multiplicities: they are pairwise distinct exactly
  when the names of the providers are.
\<close>

theorem checkProviders_one_outcome_per_provider:
  assumes "\<forall>i < length providers.
             checkProvider (net i) accountNumber (providers ! i) \<noteq> Inl NilPointerDereference"
  shows "\<exists>response.
           checkProviders net sched accountNumber providers = Inr response
           \<and> mset (map Inr (Result response)) =
               mset (map (\<lambda>(i, provider). checkProvider (net i) accountNumber provider)
                      (enumerate 0 providers))
           \<and> length (Result response) = length providers
           \<and> mset (map Provider (Result response)) = mset (map Name providers)
           \<and> distinct (map Provider (Result response)) = distinct (map Name providers)"
proof -
  let ?goroutines = "map (\<lambda>(i, provider). checkProvider (net i) accountNumber provider)
                       (enumerate 0 providers)"
  define outs where "outs = map projr ?goroutines"
  have nth: "?goroutines ! i = checkProvider (net i) accountNumber (providers ! i)"
    if "i < length providers" for i
    using that by (simp add: nth_enumerate_eq)
  have sent: "?goroutines ! i = Inr (outs ! i)" if "i < length providers" for i
  proof -
    from assms that nth [OF that] have "?goroutines ! i \<noteq> Inl NilPointerDereference"
      by simp
    then obtain r where "?goroutines ! i = Inr r"
      using not_panic_is_result by blast
    with that show ?thesis
      by (simp add: outs_def)
  qed
  have len: "length outs = length providers"
    by (simp add: outs_def)
  have goroutines: "?goroutines = map Inr outs"
  proof (rule nth_equalityI)
    show "length ?goroutines = length (map Inr outs)"
      by (simp add: len)
  next
    fix i
    assume "i < length ?goroutines"
    then have i: "i < length providers"
      by simp
    then have m: "map Inr outs ! i = Inr (outs ! i)"
      by (simp add: len)
    show "?goroutines ! i = map Inr outs ! i"
      unfolding m by (rule sent [OF i])
  qed
  have names: "map Provider outs = map Name providers"
  proof (rule nth_equalityI)
    show "length (map Provider outs) = length (map Name providers)"
      by (simp add: len)
  next
    fix i
    assume "i < length (map Provider outs)"
    then have i: "i < length providers"
      by (simp add: len)
    from sent [OF i] nth [OF i]
    have "checkProvider (net i) accountNumber (providers ! i) = Inr (outs ! i)"
      by simp
    then have "Provider (outs ! i) = Name (providers ! i)"
      by (rule checkProvider_name)
    with i show "map Provider outs ! i = map Name providers ! i"
      by (simp add: len)
  qed
  from collect_permutes [of sched outs "[]"]
  obtain rs where rs: "collect sched (map Inr outs) [] = Inr rs" and perm: "mset rs = mset outs"
    by auto
  have run: "checkProviders net sched accountNumber providers = Inr \<lparr>Result = rs\<rparr>"
    unfolding checkProviders_def Let_def goroutines rs by simp
  have a: "mset (map Inr rs) = mset ?goroutines"
    unfolding goroutines by (simp add: perm)
  from perm have b: "length rs = length providers"
    using len mset_eq_length by fastforce
  from perm have c: "mset (map Provider rs) = mset (map Name providers)"
    unfolding names [symmetric] by simp
  then have d: "distinct (map Provider rs) = distinct (map Name providers)"
    by (rule mset_eq_imp_distinct_iff)
  from run a b c d show ?thesis
    by simp
qed

text \<open>
  The test of \<^verbatim>\<open>main_test.go\<close>: both providers unreachable, the second goroutine
  delivering first.
\<close>

theorem checkProviders_one_outcome_per_provider_witness:
  "checkProvider (unreachable 0) ''12345678'' provider1 \<noteq> Inl NilPointerDereference
   \<and> checkProvider (unreachable 1) ''12345678'' provider2 \<noteq> Inl NilPointerDereference
   \<and> checkProviders unreachable [1] ''12345678'' [provider1, provider2] =
       Inr \<lparr>Result = [\<lparr>Provider = ''provider2'', IsValid = False\<rparr>,
                       \<lparr>Provider = ''provider1'', IsValid = False\<rparr>]\<rparr>
   \<and> mset (map Provider [\<lparr>Provider = ''provider2'', IsValid = False\<rparr>,
                         \<lparr>Provider = ''provider1'', IsValid = False\<rparr>]) =
       mset (map Name [provider1, provider2])"
proof -
  have hyp: "\<forall>i < length [provider1, provider2].
      checkProvider (unreachable i) ''12345678'' ([provider1, provider2] ! i) \<noteq>
        Inl NilPointerDereference"
    by (simp add: unreachable_def checkProvider_refused)
  have run: "checkProviders unreachable [1] ''12345678'' [provider1, provider2] =
      Inr \<lparr>Result = [\<lparr>Provider = ''provider2'', IsValid = False\<rparr>,
                      \<lparr>Provider = ''provider1'', IsValid = False\<rparr>]\<rparr>"
    by (simp add: checkProviders_def unreachable_def checkProvider_refused collect.simps
          provider1_def provider2_def)
  from checkProviders_one_outcome_per_provider [OF hyp, of "[1]"] run
  show ?thesis
    by (simp add: unreachable_def checkProvider_refused)
qed

text \<open>
  C1 as stated fails where two selected providers bear one name, as they do when the
  request's filter names provider1 twice: the two outcomes carry the same provider
  name.
\<close>

theorem checkProviders_distinct_names_counterexample:
  "checkProviders unreachable [] ''12345678''
     (providersToCall [provider1, provider2] (Some [''provider1'', ''provider1''])) =
     Inr \<lparr>Result = [\<lparr>Provider = ''provider1'', IsValid = False\<rparr>,
                     \<lparr>Provider = ''provider1'', IsValid = False\<rparr>]\<rparr>
   \<and> \<not> distinct (map Provider [\<lparr>Provider = ''provider1'', IsValid = False\<rparr>,
                                \<lparr>Provider = ''provider1'', IsValid = False\<rparr>])"
  by (simp add: checkProviders_def unreachable_def checkProvider_refused collect.simps
        providersToCall_def provider1_def provider2_def)

section \<open>The handler: properties\<close>

text \<open>
  C7 at the request body \<^verbatim>\<open>null\<close>: the body is valid JSON without an account number,
  \<^verbatim>\<open>json.Unmarshal\<close> leaves \<^verbatim>\<open>validationRequest\<close> nil, and \<^verbatim>\<open>unmarshalRequest\<close>
  dereferences it: the handler panics, whatever the configuration, and returns no
  error response.
\<close>

theorem Handler_null_body_panics:
  "unmarshalRequest \<lparr>Request.Body = ''null''\<rparr> = Inl NilPointerDereference
   \<and> Handler config net sched \<lparr>Request.Body = ''null''\<rparr> = Inl NilPointerDereference"
  by (simp add: Handler_def unmarshalRequest_def unmarshal_null_request)

text \<open>
  For every other body that \<^verbatim>\<open>json.Unmarshal\<close> rejects or that decodes to a request
  without account number, the handler returns the error response of
  \<^verbatim>\<open>unmarshalRequest\<close>, the same for every configuration, network and schedule.
\<close>

lemma Handler_rejects:
  assumes "json_Unmarshal_BankAccountValidationRequest (Request.Body request) = Inl err
           \<or> (\<exists>validationRequest.
                 json_Unmarshal_BankAccountValidationRequest (Request.Body request) =
                   Inr (Some validationRequest)
                 \<and> AccountNumber validationRequest = None)"
  shows "\<exists>message. unmarshalRequest request = Inr (Inl (handleError message))
           \<and> (\<forall>config net sched. Handler config net sched request = Inr (handleError message, None))"
  using assms by (auto simp: Handler_def unmarshalRequest_def)

text \<open>
  The test body without account number decodes to a request whose account number is
  nil.
\<close>

lemma unmarshal_no_account:
  "json_Unmarshal_BankAccountValidationRequest ''{\"david\": \"12345678\"}'' =
     Inr (Some \<lparr>AccountNumber = None, Providers = None\<rparr>)"
  by (simp add: json_eval)

text \<open>
  For the empty account number \<^verbatim>\<open>checkProvider\<close> posts the body
  \<^verbatim>\<open>{"accountNumber":""}\<close> to the provider's URL, and its outcome is read off the
  answer to that request.
\<close>

lemma checkProvider_empty_account:
  "checkProvider client [] provider =
     (case client (URL provider) ''application/json'' ''{\"accountNumber\":\"\"}'' of
        Inl err \<Rightarrow> Inr \<lparr>Provider = Name provider, BankAccountValidationResult.IsValid = False\<rparr>
      | Inr response \<Rightarrow>
          (case http_ReadAll response of
             Inl err \<Rightarrow>
               Inr \<lparr>Provider = Name provider, BankAccountValidationResult.IsValid = False\<rparr>
           | Inr bodyBytes \<Rightarrow>
               (case json_Unmarshal_DataProviderResponse bodyBytes of
                  Inl err \<Rightarrow>
                    Inr \<lparr>Provider = Name provider, BankAccountValidationResult.IsValid = False\<rparr>
                | Inr None \<Rightarrow> Inl NilPointerDereference
                | Inr (Some providerResponse) \<Rightarrow>
                    Inr \<lparr>Provider = Name provider,
                         BankAccountValidationResult.IsValid =
                           DataProviderResponse.IsValid providerResponse\<rparr>)))"
  by (simp add: checkProvider_def marshal_empty_account Let_def)

text \<open>
  C9: the body \<^verbatim>\<open>{"accountNumber": ""}\<close> passes \<^verbatim>\<open>unmarshalRequest\<close> with the empty
  account number. Of a body that decodes to a request, \<^verbatim>\<open>unmarshalRequest\<close> rejects
  exactly those whose account number is absent (nil), whatever its content otherwise.
  For the empty account number \<^verbatim>\<open>checkProvider\<close> posts \<^verbatim>\<open>{"accountNumber":""}\<close> with
  content type \<^verbatim>\<open>application/json\<close> to the provider's URL and turns the answer into
  its outcome. The handler's response to the body \<^verbatim>\<open>{"accountNumber": ""}\<close> is built
  from the outcomes of exactly these posts, one to every configured provider, in
  the order of delivery.
\<close>

theorem empty_account_number_accepted:
  "unmarshalRequest \<lparr>Request.Body = ''{\"accountNumber\": \"\"}''\<rparr> =
     Inr (Inr \<lparr>AccountNumber = Some [], Providers = None\<rparr>)
   \<and> (json_Unmarshal_BankAccountValidationRequest (Request.Body request) =
         Inr (Some validationRequest) \<longrightarrow>
       unmarshalRequest request =
         (case AccountNumber validationRequest of
            None \<Rightarrow> Inr (Inl (handleError ''account number missing from payload''))
          | Some accountNumber \<Rightarrow> Inr (Inr validationRequest)))
   \<and> checkProvider client [] provider =
       (case client (URL provider) ''application/json'' ''{\"accountNumber\":\"\"}'' of
          Inl err \<Rightarrow>
            Inr \<lparr>Provider = Name provider, BankAccountValidationResult.IsValid = False\<rparr>
        | Inr response \<Rightarrow>
            (case http_ReadAll response of
               Inl err \<Rightarrow>
                 Inr \<lparr>Provider = Name provider, BankAccountValidationResult.IsValid = False\<rparr>
             | Inr bodyBytes \<Rightarrow>
                 (case json_Unmarshal_DataProviderResponse bodyBytes of
                    Inl err \<Rightarrow>
                      Inr \<lparr>Provider = Name provider,
                           BankAccountValidationResult.IsValid = False\<rparr>
                  | Inr None \<Rightarrow> Inl NilPointerDereference
                  | Inr (Some providerResponse) \<Rightarrow>
                      Inr \<lparr>Provider = Name provider,
                           BankAccountValidationResult.IsValid =
                             DataProviderResponse.IsValid providerResponse\<rparr>)))
   \<and> Handler config net sched \<lparr>Request.Body = ''{\"accountNumber\": \"\"}''\<rparr> =
       (case collect sched
               (map (\<lambda>(i, provider).
                       case net i (URL provider) ''application/json''
                              ''{\"accountNumber\":\"\"}'' of
                         Inl err \<Rightarrow>
                           Inr \<lparr>Provider = Name provider,
                                BankAccountValidationResult.IsValid = False\<rparr>
                       | Inr response \<Rightarrow>
                           (case http_ReadAll response of
                              Inl err \<Rightarrow>
                                Inr \<lparr>Provider = Name provider,
                                     BankAccountValidationResult.IsValid = False\<rparr>
                            | Inr bodyBytes \<Rightarrow>
                                (case json_Unmarshal_DataProviderResponse bodyBytes of
                                   Inl err \<Rightarrow>
                                     Inr \<lparr>Provider = Name provider,
                                          BankAccountValidationResult.IsValid = False\<rparr>
                                 | Inr None \<Rightarrow> Inl NilPointerDereference
                                 | Inr (Some providerResponse) \<Rightarrow>
                                     Inr \<lparr>Provider = Name provider,
                                          BankAccountValidationResult.IsValid =
                                            DataProviderResponse.IsValid providerResponse\<rparr>)))
                  (enumerate 0 (Config.Providers config)))
               [] of
          Inl p \<Rightarrow> Inl p
        | Inr results \<Rightarrow>
            Inr (\<lparr>StatusCode = 200, IsBase64Encoded = False,
                  Body = HTMLEscape
                           (''{\"result\":['' @ join_comma (map marshal_result results) @ '']}''),
                  Headers = [''Content-Type'' \<mapsto> ''application/json'']\<rparr>, None))"
proof -
  have a: "unmarshalRequest \<lparr>Request.Body = ''{\"accountNumber\": \"\"}''\<rparr> =
      Inr (Inr \<lparr>AccountNumber = Some [], Providers = None\<rparr>)"
    by (simp add: unmarshalRequest_def unmarshal_empty_account)
  have b: "json_Unmarshal_BankAccountValidationRequest (Request.Body request) =
        Inr (Some validationRequest) \<longrightarrow>
      unmarshalRequest request =
        (case AccountNumber validationRequest of
           None \<Rightarrow> Inr (Inl (handleError ''account number missing from payload''))
         | Some accountNumber \<Rightarrow> Inr (Inr validationRequest))"
    by (simp add: unmarshalRequest_def)
  have d: "Handler config net sched \<lparr>Request.Body = ''{\"accountNumber\": \"\"}''\<rparr> =
      (case collect sched
              (map (\<lambda>(i, provider). checkProvider (net i) [] provider)
                 (enumerate 0 (Config.Providers config))) [] of
         Inl p \<Rightarrow> Inl p
       | Inr results \<Rightarrow>
           Inr (\<lparr>StatusCode = 200, IsBase64Encoded = False,
                 Body = HTMLEscape
                          (''{\"result\":['' @ join_comma (map marshal_result results) @ '']}''),
                 Headers = [''Content-Type'' \<mapsto> ''application/json'']\<rparr>, None))"
    by (simp add: Handler_def a providersToCall_def checkProviders_def
          json_Marshal_response_def split: sum.splits)
  show ?thesis
    using a b d by (simp only: checkProvider_empty_account simp_thms)
qed

text \<open>
  The test body without account number is rejected; and on a network that approves
  only the request carrying the empty account number to the provider's own URL, the
  handler reports both configured providers valid: each of them was sent the empty
  account number.
\<close>

theorem empty_account_number_accepted_witness:
  "unmarshalRequest \<lparr>Request.Body = ''{\"david\": \"12345678\"}''\<rparr> =
     Inr (Inl (handleError ''account number missing from payload''))
   \<and> Handler \<lparr>Config.Providers = [provider1, provider2]\<rparr> only_empty_account [1]
         \<lparr>Request.Body = ''{\"accountNumber\": \"\"}''\<rparr> =
       Inr (\<lparr>StatusCode = 200, IsBase64Encoded = False,
             Body = ''{\"result\":[{\"provider\":\"provider2\",\"isValid\":true},{\"provider\":\"provider1\",\"isValid\":true}]}'',
             Headers = [''Content-Type'' \<mapsto> ''application/json'']\<rparr>, None)"
  using empty_account_number_accepted
          [of "\<lparr>Request.Body = ''{\"david\": \"12345678\"}''\<rparr>"
              "\<lparr>AccountNumber = None, Providers = None\<rparr>" _ _
              "\<lparr>Config.Providers = [provider1, provider2]\<rparr>" only_empty_account "[1]"]
  by (simp add: unmarshal_no_account only_empty_account_def provider1_def provider2_def
        collect.simps unmarshal_valid_true marshal_result_def encode_string_def byte_def)

text \<open>
  C10: an error response of \<^verbatim>\<open>readConfig\<close> or \<^verbatim>\<open>unmarshalRequest\<close> is
  \<^verbatim>\<open>handleError\<close> of one of their two messages; whenever the handler returns, its
  error is nil and its response has status 200 or is an error response of
  \<^verbatim>\<open>unmarshalRequest\<close> (the status 404 of the handler's marshalling branch never
  occurs); \<^verbatim>\<open>handleError\<close> builds status 500, the content type
  \<^verbatim>\<open>application/json\<close> and the JSON object with the one member \<^verbatim>\<open>error\<close>, which
  for the four messages of the program is the text shown.
\<close>

theorem error_responses:
  "(readConfig env yaml_Unmarshal = Inl r \<longrightarrow>
      r \<in> {handleError ''ENVVAR PROVIDERS is required'',
           handleError ''ENVVAR PROVIDERS is invalid yaml''})
   \<and> (unmarshalRequest request = Inr (Inl r) \<longrightarrow>
      r \<in> {handleError ''invalid json payload'',
           handleError ''account number missing from payload''})
   \<and> (Handler config net sched request = Inr (r, e) \<longrightarrow>
      e = None \<and>
      (StatusCode r = 200 \<or>
       r \<in> {handleError ''invalid json payload'',
            handleError ''account number missing from payload''}))
   \<and> handleError message =
       \<lparr>StatusCode = 500, IsBase64Encoded = False,
        Body = HTMLEscape (''{\"error\":'' @ encode_string message @ ''}''),
        Headers = [''Content-Type'' \<mapsto> ''application/json'']\<rparr>
   \<and> Response.Body (handleError ''invalid json payload'') =
       ''{\"error\":\"invalid json payload\"}''
   \<and> Response.Body (handleError ''account number missing from payload'') =
       ''{\"error\":\"account number missing from payload\"}''
   \<and> Response.Body (handleError ''ENVVAR PROVIDERS is required'') =
       ''{\"error\":\"ENVVAR PROVIDERS is required\"}''
   \<and> Response.Body (handleError ''ENVVAR PROVIDERS is invalid yaml'') =
       ''{\"error\":\"ENVVAR PROVIDERS is invalid yaml\"}''"
proof -
  have a: "readConfig env yaml_Unmarshal = Inl r \<longrightarrow>
      r \<in> {handleError ''ENVVAR PROVIDERS is required'',
           handleError ''ENVVAR PROVIDERS is invalid yaml''}"
    by (auto simp: readConfig_def split: option.splits sum.splits)
  have b: "unmarshalRequest request = Inr (Inl r) \<longrightarrow>
      r \<in> {handleError ''invalid json payload'',
           handleError ''account number missing from payload''}"
    by (auto simp: unmarshalRequest_def split: option.splits sum.splits)
  have c: "Handler config net sched request = Inr (r, e) \<longrightarrow>
      e = None \<and>
      (StatusCode r = 200 \<or>
       r \<in> {handleError ''invalid json payload'',
            handleError ''account number missing from payload''})"
    using b by (auto simp: Handler_def json_Marshal_response_def split: option.splits sum.splits)
  show ?thesis
    using a b c by (simp only: handleError_shape error_bodies Response.simps)
qed

text \<open>
  The cases of \<^verbatim>\<open>main_test.go\<close>: no \<^verbatim>\<open>PROVIDERS\<close> variable, YAML that does not
  parse, a body that is not JSON, and a body without account number.
\<close>

theorem error_responses_witness:
  "readConfig Map.empty yaml_fails = Inl (handleError ''ENVVAR PROVIDERS is required'')
   \<and> readConfig [''PROVIDERS'' \<mapsto> []] yaml_fails =
       Inl (handleError ''ENVVAR PROVIDERS is invalid yaml'')
   \<and> unmarshalRequest \<lparr>Request.Body = ''{\"accountNumber: \"12345678\"}''\<rparr> =
       Inr (Inl (handleError ''invalid json payload''))
   \<and> Handler \<lparr>Config.Providers = [provider1, provider2]\<rparr> unreachable []
         \<lparr>Request.Body = ''{\"david\": \"12345678\"}''\<rparr> =
       Inr (handleError ''account number missing from payload'', None)
   \<and> handleError ''account number missing from payload'' =
       \<lparr>StatusCode = 500, IsBase64Encoded = False,
        Body = ''{\"error\":\"account number missing from payload\"}'',
        Headers = [''Content-Type'' \<mapsto> ''application/json'']\<rparr>"
proof -
  have a: "readConfig Map.empty yaml_fails = Inl (handleError ''ENVVAR PROVIDERS is required'')"
    by (simp add: readConfig_def)
  have b: "readConfig [''PROVIDERS'' \<mapsto> []] yaml_fails =
      Inl (handleError ''ENVVAR PROVIDERS is invalid yaml'')"
    by (simp add: readConfig_def yaml_fails_def)
  have "json_Unmarshal_BankAccountValidationRequest ''{\"accountNumber: \"12345678\"}'' =
      Inl SyntaxError"
    by (simp add: json_eval)
  then have c: "unmarshalRequest \<lparr>Request.Body = ''{\"accountNumber: \"12345678\"}''\<rparr> =
      Inr (Inl (handleError ''invalid json payload''))"
    by (simp add: unmarshalRequest_def)
  have "json_Unmarshal_BankAccountValidationRequest ''{\"david\": \"12345678\"}'' =
      Inr (Some \<lparr>AccountNumber = None, Providers = None\<rparr>)"
    by (simp add: json_eval)
  then have d: "Handler \<lparr>Config.Providers = [provider1, provider2]\<rparr> unreachable []
        \<lparr>Request.Body = ''{\"david\": \"12345678\"}''\<rparr> =
      Inr (handleError ''account number missing from payload'', None)"
    by (simp add: Handler_def unmarshalRequest_def)
  from error_responses
         [of Map.empty yaml_fails "handleError ''ENVVAR PROVIDERS is required''"
             "\<lparr>Request.Body = ''{\"david\": \"12345678\"}''\<rparr>"
             "\<lparr>Config.Providers = [provider1, provider2]\<rparr>" unreachable "[]" None
             "''account number missing from payload''"]
  have e: "handleError ''account number missing from payload'' =
      \<lparr>StatusCode = 500, IsBase64Encoded = False,
       Body = ''{\"error\":\"account number missing from payload\"}'',
       Headers = [''Content-Type'' \<mapsto> ''application/json'']\<rparr>"
    by (simp only: error_bodies)
  from a b c d e show ?thesis
    by (simp only: simp_thms)
qed

end
